theory Spec2Isabelle
  imports Complex_Main
begin

section \<open>Execution timing utilities (Instructor/utils/timing.py)\<close>

text \<open>
  The module has two constructs: the decorator \<^verbatim>\<open>time_execution\<close>, whose wrapper returns
  the result of the wrapped callable paired with the elapsed milliseconds, and the
  generator-based context manager \<^verbatim>\<open>timer\<close>, which prints the elapsed milliseconds when
  its block is left normally. Both read \<^verbatim>\<open>time.perf_counter()\<close> before and after the work.
\<close>

subsection \<open>The clock\<close>

text \<open>
  \<^verbatim>\<open>time.perf_counter()\<close> is an input of the program: the clock is the sequence of the
  readings that the calls of this module will receive, in order. A read returns the next
  reading and leaves the rest. Nothing is assumed about the readings; a theorem that
  needs the second reading not to be before the first says so.

  The clock is global to the process: the wrapped callable and the block under the
  context manager can read it as well. The world of a call is therefore the program
  state together with the clock, and the readings that a callable takes are gone when
  its caller reads next.
\<close>

type_synonym clock = "nat \<Rightarrow> real"

definition perf_counter :: "clock \<Rightarrow> real \<times> clock" where
  "perf_counter c = (c 0, \<lambda>n. c (Suc n))"

subsection \<open>Floating-point arithmetic\<close>

text \<open>
  A Python float is an IEEE 754 binary64 number. A finite float is modelled by the real
  number it denotes, and an arithmetic operation by the exact operation followed by the
  rounding \<open>rnd\<close> to a representable number. The rounding is a parameter of the model;
  round-to-nearest is monotone and maps \<open>0\<close> to \<open>0\<close>, and the theorems that need these
  two facts assume them. Infinities and NaN are not modelled: the clock returns finite
  readings.
\<close>

definition fsub :: "(real \<Rightarrow> real) \<Rightarrow> real \<Rightarrow> real \<Rightarrow> real" where
  "fsub rnd a b = rnd (a - b)"

definition fmul :: "(real \<Rightarrow> real) \<Rightarrow> real \<Rightarrow> real \<Rightarrow> real" where
  "fmul rnd a b = rnd (a * b)"

subsection \<open>Callables\<close>

text \<open>
  A call of a Python callable either does not return (\<open>None\<close>), or ends in a new program
  state \<open>'w\<close> with a raised exception (\<open>Inl\<close>) or a returned value (\<open>Inr\<close>). The arguments
  are the positional arguments \<^verbatim>\<open>*args\<close> and the keyword arguments \<^verbatim>\<open>**kwargs\<close>.

  The field \<open>name\<close> is the attribute \<^verbatim>\<open>__name__\<close>, which a callable need not have
  (a \<^verbatim>\<open>functools.partial\<close> object and an instance of a class with \<^verbatim>\<open>__call__\<close> have
  none): \<open>None\<close> is its absence. The field \<open>doc\<close> is the attribute \<^verbatim>\<open>__doc__\<close>, which every
  object has: \<open>None\<close> is Python's \<^verbatim>\<open>None\<close>, the value of a callable without a docstring.
\<close>

type_synonym ('v, 'w, 'e, 'r) call =
  "'v list \<Rightarrow> (string \<rightharpoonup> 'v) \<Rightarrow> 'w \<Rightarrow> (('e + 'r) \<times> 'w) option"

record ('v, 'w, 'e, 'r) callable =
  name :: "string option"
  doc :: "string option"
  call :: "('v, 'w, 'e, 'r) call"

text \<open>
  \<^verbatim>\<open>functools.wraps(func)\<close> applied to \<^verbatim>\<open>wrapper\<close> is
  \<^verbatim>\<open>functools.update_wrapper(wrapper, func)\<close>: each attribute of its list that \<^verbatim>\<open>func\<close> has
  is copied to the wrapper, and one that \<^verbatim>\<open>func\<close> lacks is skipped (the
  \<^verbatim>\<open>AttributeError\<close> of the lookup is caught), which leaves the wrapper's own. Of the
  copied attributes the model keeps the name and the docstring.
\<close>

definition functools_wraps ::
  "('v, 'w, 'e, 'r) callable \<Rightarrow> ('v2, 'w2, 'e2, 'r2) callable \<Rightarrow> ('v2, 'w2, 'e2, 'r2) callable"
where
  "functools_wraps wrapped wrapper_fn =
     (let w1 = (case name wrapped of
                  None \<Rightarrow> wrapper_fn
                | Some n \<Rightarrow> wrapper_fn\<lparr>name := Some n\<rparr>)
      in w1\<lparr>doc := doc wrapped\<rparr>)"

subsection \<open>The decorator\<close>

text \<open>
  The body of \<^verbatim>\<open>wrapper\<close>. The wrapped callable runs in the world that the first clock
  read has left, and the second read is taken from the clock as the callable leaves it.
  An exception of \<^verbatim>\<open>func\<close> leaves the wrapper at the call: the second clock read and the
  return statement are not reached.
\<close>

definition wrapper ::
  "(real \<Rightarrow> real) \<Rightarrow> ('v, 's \<times> clock, 'e, 'r) callable
     \<Rightarrow> ('v, 's \<times> clock, 'e, 'r \<times> real) call"
where
  "wrapper rnd func args kwargs w =
     (case w of (s, c) \<Rightarrow>
        (let (start_time, c1) = perf_counter c
         in case call func args kwargs (s, c1) of
              None \<Rightarrow> None
            | Some (Inl e, w1) \<Rightarrow> Some (Inl e, w1)
            | Some (Inr result, (s1, c2)) \<Rightarrow>
                (let (end_time, c3) = perf_counter c2;
                     execution_time = fmul rnd (fsub rnd end_time start_time) 1000
                 in Some (Inr (result, execution_time), (s1, c3)))))"

text \<open>
  \<^verbatim>\<open>def wrapper\<close> makes a function named \<^verbatim>\<open>wrapper\<close> without a docstring;
  \<^verbatim>\<open>time_execution\<close> returns it after \<^verbatim>\<open>functools.wraps(func)\<close> has been applied.
\<close>

definition time_execution ::
  "(real \<Rightarrow> real) \<Rightarrow> ('v, 's \<times> clock, 'e, 'r) callable
     \<Rightarrow> ('v, 's \<times> clock, 'e, 'r \<times> real) callable"
where
  "time_execution rnd func =
     functools_wraps func \<lparr>name = Some ''wrapper'', doc = None, call = wrapper rnd func\<rparr>"

subsection \<open>Standard output and the format \<^verbatim>\<open>.2f\<close>\<close>

text \<open>
  The program state that a block of statements works on: the characters written to the
  standard output so far, and the rest of the program's store. \<^verbatim>\<open>print(s)\<close> writes the
  string and a line feed.
\<close>

record 's state =
  stdout :: string
  store :: 's

definition newline :: char where
  "newline = CHR 0x0A"

definition print :: "string \<Rightarrow> 's state \<Rightarrow> 's state" where
  "print s st = st\<lparr>stdout := stdout st @ s @ [newline]\<rparr>"

text \<open>
  The format specification \<^verbatim>\<open>.2f\<close> writes a float in fixed-point notation with two
  digits after the point: the decimal nearest to the float's exact value, a tie going to
  the even last digit, with a minus sign for a negative float (also when the digits
  shown are all zero).
\<close>

definition round_half_even :: "real \<Rightarrow> int" where
  "round_half_even x =
     (let n = \<lfloor>x\<rfloor>; d = x - of_int n
      in if d < 1 / 2 then n
         else if 1 / 2 < d then n + 1
         else if even n then n else n + 1)"

definition digit :: "nat \<Rightarrow> char" where
  "digit d = ''0123456789'' ! d"

fun show_nat :: "nat \<Rightarrow> string" where
  "show_nat n = (if n < 10 then [digit n] else show_nat (n div 10) @ [digit (n mod 10)])"

definition fmt2 :: "real \<Rightarrow> string" where
  "fmt2 x =
     (let q = nat (round_half_even (\<bar>x\<bar> * 100))
      in (if x < 0 then ''-'' else '''') @ show_nat (q div 100) @ ''.''
           @ [digit (q mod 100 div 10), digit (q mod 10)])"

subsection \<open>The context manager\<close>

text \<open>
  \<^verbatim>\<open>timer\<close> is a generator function under \<^verbatim>\<open>contextlib.contextmanager\<close>. Entering the
  \<^verbatim>\<open>with\<close> statement runs the generator to its \<^verbatim>\<open>yield\<close>; the generator is then
  suspended with its local variables, and the value it yielded is bound by the
  \<^verbatim>\<open>with\<close> statement. The \<^verbatim>\<open>yield\<close> has no expression, so that value is Python's
  \<^verbatim>\<open>None\<close>, written \<open>None\<close> in the type \<open>'y option\<close> of bound values.
\<close>

record timer_frame =
  description :: "string option"
  start_time :: real

definition timer_enter :: "string option \<Rightarrow> clock \<Rightarrow> ('y option \<times> timer_frame) \<times> clock" where
  "timer_enter descr c =
     (let (t0, c1) = perf_counter c
      in ((None, \<lparr>description = descr, start_time = t0\<rparr>), c1))"

text \<open>
  When the block ends normally the generator is resumed and runs from the \<^verbatim>\<open>yield\<close> to
  its end. \<^verbatim>\<open>if description\<close> tests the truth value of the description: \<^verbatim>\<open>None\<close> and the
  empty string are false, every other string is true.
\<close>

definition timer_resume ::
  "(real \<Rightarrow> real) \<Rightarrow> timer_frame \<Rightarrow> 's state \<times> clock \<Rightarrow> 's state \<times> clock"
where
  "timer_resume rnd fr w =
     (case w of (s, c) \<Rightarrow>
        (let (end_time, c1) = perf_counter c;
             execution_time = fmul rnd (fsub rnd end_time (start_time fr)) 1000
         in case description fr of
              Some d \<Rightarrow>
                if d \<noteq> []
                then (print (d @ '' took '' @ fmt2 execution_time @ ''ms'') s, c1)
                else (print (''Execution took '' @ fmt2 execution_time @ ''ms'') s, c1)
            | None \<Rightarrow> (print (''Execution took '' @ fmt2 execution_time @ ''ms'') s, c1)))"

text \<open>
  When the block raises, the exception is thrown into the generator at the \<^verbatim>\<open>yield\<close>.
  The \<^verbatim>\<open>yield\<close> stands in no \<^verbatim>\<open>try\<close> statement, so the exception leaves the generator
  at once and none of the statements after the \<^verbatim>\<open>yield\<close> runs.
\<close>

definition timer_throw :: "timer_frame \<Rightarrow> 'e \<Rightarrow> 'w \<Rightarrow> ('e + unit) \<times> 'w" where
  "timer_throw fr e w = (Inl e, w)"

text \<open>
  \<^verbatim>\<open>with timer(description) as target: block\<close>. The block runs in the world that the
  entry has left and may read the clock itself. The context manager's exit receives from
  the generator the very exception it threw in, answers that it did not handle it, and
  the \<^verbatim>\<open>with\<close> statement raises it again.
\<close>

definition with_timer ::
  "(real \<Rightarrow> real) \<Rightarrow> string option
     \<Rightarrow> ('y option \<Rightarrow> 's state \<times> clock \<Rightarrow> (('e + unit) \<times> ('s state \<times> clock)) option)
     \<Rightarrow> 's state \<times> clock \<Rightarrow> (('e + unit) \<times> ('s state \<times> clock)) option"
where
  "with_timer rnd descr block w =
     (case w of (s, c) \<Rightarrow>
        (let ((target, fr), c1) = timer_enter descr c
         in case block target (s, c1) of
              None \<Rightarrow> None
            | Some (Inl e, w1) \<Rightarrow> Some (timer_throw fr e w1)
            | Some (Inr u, w1) \<Rightarrow> Some (Inr (), timer_resume rnd fr w1)))"

subsection \<open>Example callables, blocks and clocks\<close>

text \<open>
  Concrete inputs on which the theorems below are evaluated. An exception is
  represented by the name of its class.

  \<open>my_function\<close> is the function of the decorator's docstring: it doubles its one
  argument \<^verbatim>\<open>x\<close>, given by position or by keyword, and a call with other arguments
  raises \<^verbatim>\<open>TypeError\<close>.
  \<open>failing_function\<close> raises \<^verbatim>\<open>ValueError\<close> on every call. \<open>partial_object\<close> is
  \<^verbatim>\<open>functools.partial(my_function, 5)\<close>, a callable without \<^verbatim>\<open>__name__\<close>.
  \<open>perf_counter_function\<close> is \<^verbatim>\<open>time.perf_counter\<close> itself, taken as a callable: it
  returns the next reading of the clock. The docstrings of the last two are shortened.
\<close>

definition my_function :: "(int, 's, string, int) callable" where
  "my_function =
     \<lparr>name = Some ''my_function'', doc = None,
      call = (\<lambda>args kwargs s.
        case args of
          [x] \<Rightarrow> if kwargs = Map.empty then Some (Inr (x * 2), s) else Some (Inl ''TypeError'', s)
        | [] \<Rightarrow>
            (case kwargs ''x'' of
               Some x \<Rightarrow>
                 if kwargs = [''x'' \<mapsto> x] then Some (Inr (x * 2), s)
                 else Some (Inl ''TypeError'', s)
             | None \<Rightarrow> Some (Inl ''TypeError'', s))
        | _ \<Rightarrow> Some (Inl ''TypeError'', s))\<rparr>"

definition failing_function :: "(int, 's, string, int) callable" where
  "failing_function =
     \<lparr>name = Some ''failing_function'', doc = Some ''Always fails.'',
      call = (\<lambda>args kwargs s. Some (Inl ''ValueError'', s))\<rparr>"

definition partial_object :: "(int, 's, string, int) callable" where
  "partial_object =
     \<lparr>name = None, doc = Some ''partial(func, *args, **keywords)'',
      call = (\<lambda>args kwargs s. call my_function (5 # args) kwargs s)\<rparr>"

definition perf_counter_function :: "(int, 's \<times> clock, string, real) callable" where
  "perf_counter_function =
     \<lparr>name = Some ''perf_counter'', doc = Some ''Performance counter for benchmarking.'',
      call = (\<lambda>args kwargs w.
        case w of (s, c) \<Rightarrow>
          if args = [] \<and> kwargs = Map.empty
          then (let (t, c1) = perf_counter c in Some (Inr t, (s, c1)))
          else Some (Inl ''TypeError'', (s, c)))\<rparr>"

text \<open>
  A block that does nothing (\<^verbatim>\<open>pass\<close>), and a block that prints and then raises
  \<^verbatim>\<open>ValueError\<close>.
\<close>

definition noop_block ::
  "unit option \<Rightarrow> unit state \<times> clock \<Rightarrow> ((string + unit) \<times> (unit state \<times> clock)) option"
where
  "noop_block target w = Some (Inr (), w)"

definition failing_block ::
  "unit option \<Rightarrow> unit state \<times> clock \<Rightarrow> ((string + unit) \<times> (unit state \<times> clock)) option"
where
  "failing_block target w =
     (case w of (s, c) \<Rightarrow> Some (Inl ''ValueError'', (print ''working'' s, c)))"

text \<open>
  A clock whose readings are one second apart and one whose readings are two seconds
  apart, a program state with nothing written yet, and the rounding that rounds nothing.
\<close>

definition seconds :: clock where
  "seconds n = real n"

definition double_seconds :: clock where
  "double_seconds n = 2 * real n"

definition fresh :: "unit state" where
  "fresh = \<lparr>stdout = [], store = ()\<rparr>"

definition exact :: "real \<Rightarrow> real" where
  "exact x = x"

section \<open>Properties\<close>

subsection \<open>Auxiliary facts\<close>

lemma call_functools_wraps: "call (functools_wraps wrapped w) = call w"
  by (simp add: functools_wraps_def split: option.split)

lemma call_time_execution: "call (time_execution rnd func) = wrapper rnd func"
  by (simp add: time_execution_def call_functools_wraps)

lemma wrapper_returns:
  "call func args kwargs (s, \<lambda>n. c (Suc n)) = Some (Inr v, (s1, c2)) \<Longrightarrow>
   wrapper rnd func args kwargs (s, c) =
     Some (Inr (v, fmul rnd (fsub rnd (c2 0) (c 0)) 1000), (s1, \<lambda>n. c2 (Suc n)))"
  by (simp add: wrapper_def perf_counter_def)

lemma wrapper_raises:
  "call func args kwargs (s, \<lambda>n. c (Suc n)) = Some (Inl e, w1) \<Longrightarrow>
   wrapper rnd func args kwargs (s, c) = Some (Inl e, w1)"
  by (simp add: wrapper_def perf_counter_def)

lemma wrapper_diverges:
  "call func args kwargs (s, \<lambda>n. c (Suc n)) = None \<Longrightarrow>
   wrapper rnd func args kwargs (s, c) = None"
  by (simp add: wrapper_def perf_counter_def)

lemma elapsed_nonneg:
  assumes "mono rnd" and "rnd 0 = 0" and "t0 \<le> t1"
  shows "0 \<le> fmul rnd (fsub rnd t1 t0) 1000"
proof -
  have "rnd 0 \<le> rnd (t1 - t0)"
    using assms(1,3) by (simp add: monoD)
  then have d: "0 \<le> fsub rnd t1 t0"
    using assms(2) by (simp add: fsub_def)
  then have "rnd 0 \<le> rnd (fsub rnd t1 t0 * 1000)"
    using assms(1) by (simp add: monoD)
  then show ?thesis
    using assms(2) by (simp add: fmul_def)
qed

lemma with_timer_normal:
  "block None (s, \<lambda>n. c (Suc n)) = Some (Inr (), (s1, c2)) \<Longrightarrow>
   with_timer rnd descr block (s, c) =
     Some (Inr (),
       (print ((case descr of
                  None \<Rightarrow> ''Execution took ''
                | Some d \<Rightarrow> if d \<noteq> [] then d @ '' took '' else ''Execution took '')
               @ fmt2 (fmul rnd (fsub rnd (c2 0) (c 0)) 1000) @ ''ms'') s1,
        \<lambda>n. c2 (Suc n)))"
  by (simp add: with_timer_def timer_enter_def timer_resume_def perf_counter_def
      split: option.split)

lemma with_timer_raises:
  "block None (s, \<lambda>n. c (Suc n)) = Some (Inl e, w1) \<Longrightarrow>
   with_timer rnd descr block (s, c) = Some (Inl e, w1)"
  by (simp add: with_timer_def timer_enter_def timer_throw_def perf_counter_def)

lemma with_timer_diverges:
  "block None (s, \<lambda>n. c (Suc n)) = None \<Longrightarrow> with_timer rnd descr block (s, c) = None"
  by (simp add: with_timer_def timer_enter_def perf_counter_def)

lemma fmt2_1000: "fmt2 1000 = ''1000.00''"
  by (simp add: fmt2_def round_half_even_def digit_def)

text \<open>The digits that \<^verbatim>\<open>.2f\<close> writes: no line feed is among them.\<close>

lemma digit_in_digits: "d < 10 \<Longrightarrow> digit d \<in> set ''0123456789''"
  unfolding digit_def by (rule nth_mem) simp

lemma show_nat_digits: "set (show_nat n) \<subseteq> set ''0123456789''"
proof (induction n rule: show_nat.induct)
  case (1 n)
  show ?case
  proof (cases "n < 10")
    case True
    then show ?thesis using digit_in_digits [of n] by simp
  next
    case False
    have "digit (n mod 10) \<in> set ''0123456789''"
      by (rule digit_in_digits) simp
    with False "1.IH" show ?thesis
      by (subst show_nat.simps) simp
  qed
qed

lemma fmt2_unfold:
  "fmt2 x = (if x < 0 then ''-'' else '''') @ show_nat (nat (round_half_even (\<bar>x\<bar> * 100)) div 100)
     @ ''.'' @ [digit (nat (round_half_even (\<bar>x\<bar> * 100)) mod 100 div 10),
                digit (nat (round_half_even (\<bar>x\<bar> * 100)) mod 10)]"
  by (simp add: fmt2_def Let_def del: show_nat.simps)

lemma newline_not_in_fmt2: "newline \<notin> set (fmt2 x)"
proof -
  define q where "q = nat (round_half_even (\<bar>x\<bar> * 100))"
  have a: "newline \<notin> set ''0123456789''"
    by (simp add: newline_def)
  have "q mod 100 div 10 < 10"
    by (simp add: less_mult_imp_div_less)
  then have b1: "digit (q mod 100 div 10) \<noteq> newline"
    using a digit_in_digits by metis
  have "q mod 10 < 10"
    by simp
  then have b2: "digit (q mod 10) \<noteq> newline"
    using a digit_in_digits by metis
  have c: "newline \<notin> set (show_nat (q div 100))"
    using a show_nat_digits by blast
  have d: "newline \<noteq> CHR ''-''" "newline \<noteq> CHR ''.''"
    by (simp_all add: newline_def)
  show ?thesis
    unfolding fmt2_unfold q_def [symmetric]
    using b1 b2 c d by (auto simp del: show_nat.simps)
qed

text \<open>The two digits after the point are those of the nearest hundredth.\<close>

lemma round_half_even_nearest: "\<bar>of_int (round_half_even x) - x\<bar> \<le> 1 / 2"
  unfolding round_half_even_def Let_def by (auto; linarith)

subsection \<open>The decorator returns the value of the wrapped callable\<close>

text \<open>
  C1. For every callable and all positional and keyword arguments: when the call of the
  callable on these arguments, in the world that the wrapper's first clock read has
  left, returns the value \<open>v\<close>, the call of the decorated callable on the same arguments
  returns a pair whose first component is \<open>v\<close>. The second component is the difference
  of the reading after the call and the reading before it, in milliseconds, and the
  program state is the one the callable left.
\<close>

theorem time_execution_value_preserving:
  assumes "call func args kwargs (s, \<lambda>n. c (Suc n)) = Some (Inr v, (s1, c2))"
  shows "call (time_execution rnd func) args kwargs (s, c) =
           Some (Inr (v, fmul rnd (fsub rnd (c2 0) (c 0)) 1000), (s1, \<lambda>n. c2 (Suc n)))"
  using assms by (simp add: call_time_execution wrapper_returns)

theorem time_execution_value_preserving_witness:
  "call my_function [5] Map.empty ((), \<lambda>n. seconds (Suc n)) =
     Some (Inr 10, ((), \<lambda>n. seconds (Suc n))) \<and>
   map_option fst (call (time_execution exact my_function) [5] Map.empty ((), seconds)) =
     Some (Inr (10, 1000))"
proof -
  have h: "call my_function [5] Map.empty ((), \<lambda>n. seconds (Suc n)) =
     Some (Inr 10, ((), \<lambda>n. seconds (Suc n)))"
    by (simp add: my_function_def)
  show ?thesis
    using h time_execution_value_preserving
      [where func = my_function and args = "[5]" and kwargs = Map.empty and s = "()"
         and v = 10 and ?s1.0 = "()" and rnd = exact and c = seconds
         and ?c2.0 = "\<lambda>n. seconds (Suc n)"]
    by (simp add: fmul_def fsub_def exact_def seconds_def)
qed

text \<open>
  A decorated callable is a callable of the same world, so the decorator can be applied
  again: the inner wrapper reads the same clock between the two readings of the outer.
\<close>

lemma nested_decorators:
  "map_option fst
     (call (time_execution exact (time_execution exact my_function)) [5] Map.empty ((), seconds)) =
   Some (Inr ((10, 1000), 3000))"
  by (simp add: call_time_execution wrapper_def my_function_def perf_counter_def
      seconds_def fmul_def fsub_def exact_def)

subsection \<open>The decorator lets an exception of the wrapped callable through\<close>

text \<open>
  C3. For every callable and arguments on which the callable raises the exception \<open>e\<close>,
  the call of the decorated callable raises the same \<open>e\<close>: the outcome is the
  exception, not a pair of a value and a time. The world is the one the callable left:
  the wrapper has read the clock once, before the call, and not again.
\<close>

theorem time_execution_reraises:
  assumes "call func args kwargs (s, snd (perf_counter c)) = Some (Inl e, w1)"
  shows "call (time_execution rnd func) args kwargs (s, c) = Some (Inl e, w1)"
  using assms by (simp add: call_time_execution wrapper_raises perf_counter_def)

theorem time_execution_reraises_witness:
  "call failing_function [] Map.empty ((), snd (perf_counter seconds)) =
     Some (Inl ''ValueError'', ((), \<lambda>n. seconds (Suc n))) \<and>
   call (time_execution exact failing_function) [] Map.empty ((), seconds) =
     Some (Inl ''ValueError'', ((), \<lambda>n. seconds (Suc n)))"
proof -
  have h: "call failing_function [] Map.empty ((), snd (perf_counter seconds)) =
     Some (Inl ''ValueError'', ((), \<lambda>n. seconds (Suc n)))"
    by (simp add: failing_function_def perf_counter_def)
  show ?thesis
    using h time_execution_reraises
      [where func = failing_function and args = "[]" and kwargs = Map.empty and s = "()"
         and e = "''ValueError''" and ?w1.0 = "((), \<lambda>n. seconds (Suc n))"
         and rnd = exact and c = seconds]
    by simp
qed

subsection \<open>The callable runs once, and the wrapper's readings reach only the time\<close>

text \<open>
  C10, as the code has it. For every callable and arguments, the outcome of the
  decorated callable without its time component, together with the program state it
  leaves, is the outcome and the state of one call of the callable on the same
  arguments, in the world that the wrapper's first clock read has left: the callable is
  run exactly once, and the readings that the wrapper takes reach the time component
  only. For a callable whose outcome and effect on the program state do not depend on
  the clock, two runs that differ only in the clock (\<open>c\<close> and \<open>c'\<close>) agree on the value
  component and on the program state.
\<close>

theorem time_execution_runs_once:
  "map_option (\<lambda>(r, s1, c1). (map_sum id fst r, s1))
      (call (time_execution rnd func) args kwargs (s, c)) =
   map_option (\<lambda>(r, s1, c1). (r, s1)) (call func args kwargs (s, \<lambda>n. c (Suc n)))
   \<and> ((\<forall>d d'. map_option (\<lambda>(r, s1, c1). (r, s1)) (call func args kwargs (s, d)) =
               map_option (\<lambda>(r, s1, c1). (r, s1)) (call func args kwargs (s, d')))
        \<longrightarrow> map_option (\<lambda>(r, s1, c1). (map_sum id fst r, s1))
              (call (time_execution rnd func) args kwargs (s, c)) =
            map_option (\<lambda>(r, s1, c1). (map_sum id fst r, s1))
              (call (time_execution rnd func) args kwargs (s, c')))"
proof -
  have once: "map_option (\<lambda>(r, s1, c1). (map_sum id fst r, s1))
      (call (time_execution rnd func) args kwargs (s, d)) =
    map_option (\<lambda>(r, s1, c1). (r, s1)) (call func args kwargs (s, \<lambda>n. d (Suc n)))" for d
  proof (cases "call func args kwargs (s, \<lambda>n. d (Suc n))")
    case None
    then show ?thesis by (simp add: call_time_execution wrapper_diverges)
  next
    case (Some p)
    obtain r s1 c2 where p: "p = (r, s1, c2)" by (cases p)
    show ?thesis
    proof (cases r)
      case (Inl e)
      with Some p show ?thesis by (simp add: call_time_execution wrapper_raises)
    next
      case (Inr v)
      with Some p show ?thesis by (simp add: call_time_execution wrapper_returns)
    qed
  qed
  show ?thesis
    unfolding once by simp
qed

theorem time_execution_runs_once_witness:
  "(\<forall>d d'. map_option (\<lambda>(r, s1, c1). (r, s1)) (call my_function [5] Map.empty ((), d)) =
            map_option (\<lambda>(r, s1, c1). (r, s1)) (call my_function [5] Map.empty ((), d')))
   \<and> map_option (\<lambda>(r, s1, c1). (map_sum id fst r, s1))
        (call (time_execution exact my_function) [5] Map.empty ((), seconds)) = Some (Inr 10, ())
   \<and> map_option (\<lambda>(r, s1, c1). (map_sum id fst r, s1))
        (call (time_execution exact my_function) [5] Map.empty ((), double_seconds)) =
       Some (Inr 10, ())"
proof -
  have blind: "\<forall>d d'. map_option (\<lambda>(r, s1, c1). (r, s1)) (call my_function [5] Map.empty ((), d)) =
            map_option (\<lambda>(r, s1, c1). (r, s1)) (call my_function [5] Map.empty ((), d'))"
    by (simp add: my_function_def)
  have v: "map_option (\<lambda>(r, s1, c1). (r, s1))
        (call my_function [5] Map.empty ((), \<lambda>n. seconds (Suc n))) = Some (Inr 10, ())"
    by (simp add: my_function_def)
  note once = time_execution_runs_once
      [where func = my_function and args = "[5]" and kwargs = Map.empty and s = "()"
         and rnd = exact and c = seconds and c' = double_seconds]
  have a: "map_option (\<lambda>(r, s1, c1). (map_sum id fst r, s1))
        (call (time_execution exact my_function) [5] Map.empty ((), seconds)) = Some (Inr 10, ())"
    using once [THEN conjunct1] v by (rule trans)
  have b: "map_option (\<lambda>(r, s1, c1). (map_sum id fst r, s1))
        (call (time_execution exact my_function) [5] Map.empty ((), seconds)) =
      map_option (\<lambda>(r, s1, c1). (map_sum id fst r, s1))
        (call (time_execution exact my_function) [5] Map.empty ((), double_seconds))"
    using once [THEN conjunct2] blind by (rule mp)
  show ?thesis
    by (intro conjI) (rule blind, rule a, rule trans [OF b [symmetric] a])
qed

text \<open>
  The claim as first stated, independence of the clock for every callable, fails for a
  callable that reads the clock itself. Decorating \<^verbatim>\<open>time.perf_counter\<close> gives a callable
  whose value component is a clock reading: \<open>1\<close> on the clock \<open>seconds\<close> and \<open>2\<close> on the
  clock \<open>double_seconds\<close>.
\<close>

theorem time_execution_clock_counterexample:
  "map_option (\<lambda>(r, s1, c1). map_sum id fst r)
     (call (time_execution exact perf_counter_function) [] Map.empty ((), seconds)) =
     Some (Inr 1)
   \<and> map_option (\<lambda>(r, s1, c1). map_sum id fst r)
     (call (time_execution exact perf_counter_function) [] Map.empty ((), double_seconds)) =
     Some (Inr 2)
   \<and> map_option (\<lambda>(r, s1, c1). map_sum id fst r)
     (call (time_execution exact perf_counter_function) [] Map.empty ((), seconds)) \<noteq>
     map_option (\<lambda>(r, s1, c1). map_sum id fst r)
     (call (time_execution exact perf_counter_function) [] Map.empty ((), double_seconds))"
  by (simp add: call_time_execution wrapper_def perf_counter_function_def perf_counter_def
      seconds_def double_seconds_def)

subsection \<open>The context manager lets an exception of its block through\<close>

text \<open>
  C4. For every block under \<^verbatim>\<open>timer\<close> that raises the exception \<open>e\<close>, the \<^verbatim>\<open>with\<close>
  statement raises the same \<open>e\<close>: nothing is caught, wrapped or translated.
\<close>

theorem timer_propagates:
  assumes "block None (s, \<lambda>n. c (Suc n)) = Some (Inl e, w1)"
  shows "\<exists>w. with_timer rnd descr block (s, c) = Some (Inl e, w)"
  using assms by (simp add: with_timer_raises)

theorem timer_propagates_witness:
  "failing_block None (fresh, \<lambda>n. seconds (Suc n)) =
     Some (Inl ''ValueError'', (print ''working'' fresh, \<lambda>n. seconds (Suc n))) \<and>
   (\<exists>w. with_timer exact (Some ''load'') failing_block (fresh, seconds) = Some (Inl ''ValueError'', w))"
proof -
  have h: "failing_block None (fresh, \<lambda>n. seconds (Suc n)) =
     Some (Inl ''ValueError'', (print ''working'' fresh, \<lambda>n. seconds (Suc n)))"
    by (simp add: failing_block_def)
  show ?thesis
    using h timer_propagates
      [where block = failing_block and s = fresh and e = "''ValueError''"
         and ?w1.0 = "(print ''working'' fresh, \<lambda>n. seconds (Suc n))" and rnd = exact
         and descr = "Some ''load''" and c = seconds]
    by simp
qed

subsection \<open>The context manager prints nothing when its block raises\<close>

text \<open>
  C9. For every block under \<^verbatim>\<open>timer\<close> that raises, the world after the \<^verbatim>\<open>with\<close>
  statement is the world the block left: the timer has printed nothing, and it has read
  the clock once only, at the entry, so no stop time is taken.
\<close>

theorem timer_silent_on_failure:
  assumes "block None (s, snd (perf_counter c)) = Some (Inl e, w1)"
  shows "with_timer rnd descr block (s, c) = Some (Inl e, w1)"
  using assms by (simp add: with_timer_raises perf_counter_def)

theorem timer_silent_on_failure_witness:
  "failing_block None (fresh, snd (perf_counter seconds)) =
     Some (Inl ''ValueError'', (print ''working'' fresh, \<lambda>n. seconds (Suc n))) \<and>
   map_option (\<lambda>(r, s1, c1). (r, stdout s1, c1 0))
     (with_timer exact (Some ''load'') failing_block (fresh, seconds)) =
     Some (Inl ''ValueError'', ''working'' @ [newline], 1)"
proof -
  have h: "failing_block None (fresh, snd (perf_counter seconds)) =
     Some (Inl ''ValueError'', (print ''working'' fresh, \<lambda>n. seconds (Suc n)))"
    by (simp add: failing_block_def perf_counter_def)
  show ?thesis
    using h timer_silent_on_failure
      [where block = failing_block and s = fresh and e = "''ValueError''"
         and ?w1.0 = "(print ''working'' fresh, \<lambda>n. seconds (Suc n))" and rnd = exact
         and descr = "Some ''load''" and c = seconds]
    by (simp add: print_def fresh_def seconds_def)
qed

subsection \<open>The elapsed time is not negative\<close>

text \<open>
  C5. When the clock reading taken after the work is not before the reading taken
  before it, the elapsed milliseconds of a completed measurement are \<open>\<ge> 0\<close>, both the
  time that the decorated callable returns and the time that the context manager
  prints. The rounding of the float operations is assumed monotone and to keep \<open>0\<close>, as
  round-to-nearest does.
\<close>

theorem elapsed_ms_nonneg:
  assumes "mono rnd" and "rnd 0 = 0"
    and "call func args kwargs (s, \<lambda>n. c (Suc n)) = Some (Inr v, (s1, c2))"
    and "c 0 \<le> c2 0"
    and "block None (st, \<lambda>n. d (Suc n)) = Some (Inr (), (st1, d2))"
    and "d 0 \<le> d2 0"
  shows "(\<exists>t w. call (time_execution rnd func) args kwargs (s, c) = Some (Inr (v, t), w) \<and> 0 \<le> t)
       \<and> (\<exists>t w. with_timer rnd descr block (st, d) =
              Some (Inr (),
                (print ((case descr of
                     None \<Rightarrow> ''Execution took ''
                   | Some d \<Rightarrow> if d \<noteq> [] then d @ '' took '' else ''Execution took '')
                   @ fmt2 t @ ''ms'') st1, w)) \<and> 0 \<le> t)"
proof -
  have t: "0 \<le> fmul rnd (fsub rnd (c2 0) (c 0)) 1000"
    using assms(1,2,4) by (rule elapsed_nonneg)
  have u: "0 \<le> fmul rnd (fsub rnd (d2 0) (d 0)) 1000"
    using assms(1,2,6) by (rule elapsed_nonneg)
  have "\<exists>t w. call (time_execution rnd func) args kwargs (s, c) = Some (Inr (v, t), w) \<and> 0 \<le> t"
    using t assms(3) by (simp add: call_time_execution wrapper_returns)
  moreover have "\<exists>t w. with_timer rnd descr block (st, d) =
              Some (Inr (),
                (print ((case descr of
                     None \<Rightarrow> ''Execution took ''
                   | Some d \<Rightarrow> if d \<noteq> [] then d @ '' took '' else ''Execution took '')
                   @ fmt2 t @ ''ms'') st1, w)) \<and> 0 \<le> t"
    using u with_timer_normal
      [where block = block and s = st and ?s1.0 = st1 and c = d and ?c2.0 = d2, of rnd descr]
      assms(5) by blast
  ultimately show ?thesis by blast
qed

theorem elapsed_ms_nonneg_witness:
  "mono exact \<and> exact 0 = 0
   \<and> call my_function [5] Map.empty ((), \<lambda>n. seconds (Suc n)) =
       Some (Inr 10, ((), \<lambda>n. seconds (Suc n)))
   \<and> seconds 0 \<le> seconds (Suc 0)
   \<and> noop_block None (fresh, \<lambda>n. seconds (Suc n)) = Some (Inr (), (fresh, \<lambda>n. seconds (Suc n)))
   \<and> (\<exists>t w. call (time_execution exact my_function) [5] Map.empty ((), seconds) =
          Some (Inr (10, t), w) \<and> 0 \<le> t)
   \<and> (\<exists>t w. with_timer exact (Some ''load'') noop_block (fresh, seconds) =
          Some (Inr (), (print (''load took '' @ fmt2 t @ ''ms'') fresh, w)) \<and> 0 \<le> t)"
proof -
  have h1: "mono exact"
    by (simp add: mono_def exact_def)
  have h2: "exact 0 = 0"
    by (simp add: exact_def)
  have h3: "call my_function [5] Map.empty ((), \<lambda>n. seconds (Suc n)) =
       Some (Inr 10, ((), \<lambda>n. seconds (Suc n)))"
    by (simp add: my_function_def)
  have h4: "seconds 0 \<le> seconds (Suc 0)"
    by (simp add: seconds_def)
  have h5: "noop_block None (fresh, \<lambda>n. seconds (Suc n)) =
      Some (Inr (), (fresh, \<lambda>n. seconds (Suc n)))"
    by (simp add: noop_block_def)
  show ?thesis
    using h1 h2 h3 h4 h5 elapsed_ms_nonneg
      [where rnd = exact and c = seconds and ?c2.0 = "\<lambda>n. seconds (Suc n)"
         and func = my_function and args = "[5]"
         and kwargs = Map.empty and s = "()" and v = 10 and ?s1.0 = "()"
         and block = noop_block and st = fresh and ?st1.0 = fresh
         and d = seconds and ?d2.0 = "\<lambda>n. seconds (Suc n)" and descr = "Some ''load''"]
    by simp
qed

subsection \<open>The line that the context manager prints\<close>

text \<open>
  C2, as the code has it. For every block that leaves the \<^verbatim>\<open>timer\<close> scope normally, the
  timer writes one text and a line feed to the standard output, after what the block
  wrote. The text is \<^verbatim>\<open>{description} took {elapsed:.2f}ms\<close> when a non-empty description
  was given, and \<^verbatim>\<open>Execution took {elapsed:.2f}ms\<close> when no description or the empty
  string was given, the elapsed milliseconds written with two decimal places. The text
  holds no line feed, so it is one line, unless the description itself holds one.
\<close>

theorem timer_prints_one_line:
  assumes "block None (s, \<lambda>n. c (Suc n)) = Some (Inr (), (s1, c2))"
  shows "\<exists>line. with_timer rnd descr block (s, c) =
             Some (Inr (), (s1\<lparr>stdout := stdout s1 @ line @ [newline]\<rparr>, \<lambda>n. c2 (Suc n)))
           \<and> line = (case descr of
                 None \<Rightarrow> ''Execution took '' @ fmt2 (fmul rnd (fsub rnd (c2 0) (c 0)) 1000) @ ''ms''
               | Some d \<Rightarrow>
                   if d \<noteq> []
                   then d @ '' took '' @ fmt2 (fmul rnd (fsub rnd (c2 0) (c 0)) 1000) @ ''ms''
                   else ''Execution took '' @ fmt2 (fmul rnd (fsub rnd (c2 0) (c 0)) 1000) @ ''ms'')
           \<and> ((\<forall>d. descr = Some d \<longrightarrow> newline \<notin> set d) \<longrightarrow> newline \<notin> set line)"
proof -
  let ?t = "fmul rnd (fsub rnd (c2 0) (c 0)) 1000"
  let ?line = "(case descr of
                 None \<Rightarrow> ''Execution took '' @ fmt2 ?t @ ''ms''
               | Some d \<Rightarrow>
                   if d \<noteq> []
                   then d @ '' took '' @ fmt2 ?t @ ''ms''
                   else ''Execution took '' @ fmt2 ?t @ ''ms'')"
  have run: "with_timer rnd descr block (s, c) =
             Some (Inr (), (s1\<lparr>stdout := stdout s1 @ ?line @ [newline]\<rparr>, \<lambda>n. c2 (Suc n)))"
    using assms by (simp add: with_timer_normal print_def split: option.split)
  have nl: "newline \<notin> set ''Execution took ''" "newline \<notin> set '' took ''" "newline \<notin> set ''ms''"
    by (simp_all add: newline_def)
  have one: "(\<forall>d. descr = Some d \<longrightarrow> newline \<notin> set d) \<longrightarrow> newline \<notin> set ?line"
    using nl newline_not_in_fmt2 [of ?t] by (cases descr) auto
  show ?thesis
    using run one by blast
qed

theorem timer_prints_one_line_witness:
  "noop_block None (fresh, \<lambda>n. seconds (Suc n)) = Some (Inr (), (fresh, \<lambda>n. seconds (Suc n))) \<and>
   map_option (\<lambda>(r, s1, c1). (r, stdout s1))
     (with_timer exact (Some ''load'') noop_block (fresh, seconds)) =
     Some (Inr (), ''load took 1000.00ms'' @ [newline])
   \<and> newline \<notin> set ''load'' \<and> newline \<notin> set ''load took 1000.00ms''"
proof -
  have h: "noop_block None (fresh, \<lambda>n. seconds (Suc n)) =
      Some (Inr (), (fresh, \<lambda>n. seconds (Suc n)))"
    by (simp add: noop_block_def)
  have t: "fmul exact (fsub exact (seconds (Suc 0)) (seconds 0)) 1000 = 1000"
    by (simp add: fmul_def fsub_def exact_def seconds_def)
  have n: "newline \<notin> set ''load''"
    by (simp add: newline_def)
  show ?thesis
    using h n timer_prints_one_line
      [where block = noop_block and s = fresh and ?s1.0 = fresh and rnd = exact
         and descr = "Some ''load''" and c = seconds and ?c2.0 = "\<lambda>n. seconds (Suc n)"]
    unfolding t fmt2_1000
    by (auto simp add: fresh_def)
qed

text \<open>
  The claim as first stated promises \<^verbatim>\<open>{description} took ...\<close> for every description
  that was supplied. The empty string is a description that was supplied, and for it the
  line is not \<^verbatim>\<open> took 1000.00ms\<close> but \<^verbatim>\<open>Execution took 1000.00ms\<close>.
\<close>

theorem timer_description_counterexample:
  "map_option (\<lambda>(r, s1, c1). (r, stdout s1))
     (with_timer exact (Some '''') noop_block (fresh, seconds)) =
     Some (Inr (), ''Execution took 1000.00ms'' @ [newline])
   \<and> map_option (\<lambda>(r, s1, c1). (r, stdout s1))
     (with_timer exact (Some '''') noop_block (fresh, seconds)) \<noteq>
     Some (Inr (), '''' @ '' took 1000.00ms'' @ [newline])"
proof -
  have h: "noop_block None (fresh, \<lambda>n. seconds (Suc n)) =
      Some (Inr (), (fresh, \<lambda>n. seconds (Suc n)))"
    by (simp add: noop_block_def)
  have t: "fmul exact (fsub exact (seconds (Suc 0)) (seconds 0)) 1000 = 1000"
    by (simp add: fmul_def fsub_def exact_def seconds_def)
  have "with_timer exact (Some '''') noop_block (fresh, seconds) =
      Some (Inr (), (print (''Execution took '' @ fmt2 1000 @ ''ms'') fresh, \<lambda>n. seconds (Suc (Suc n))))"
    using with_timer_normal
      [where block = noop_block and s = fresh and ?s1.0 = fresh and c = seconds
         and ?c2.0 = "\<lambda>n. seconds (Suc n)", of exact "Some ''''"] h
    unfolding t by simp
  then show ?thesis
    by (simp add: fmt2_1000 print_def fresh_def)
qed

subsection \<open>The empty description\<close>

text \<open>
  C8. When \<^verbatim>\<open>timer\<close> is called with the empty string as its description, a block that
  ends normally makes it print \<^verbatim>\<open>Execution took {elapsed:.2f}ms\<close>, the message for no
  description, and not \<^verbatim>\<open> took {elapsed:.2f}ms\<close>: the branch tests the truth value of the
  description.
\<close>

theorem timer_empty_description:
  assumes "block None (s, \<lambda>n. c (Suc n)) = Some (Inr (), (s1, c2))"
  shows "with_timer rnd (Some '''') block (s, c) =
           Some (Inr (),
             (print (''Execution took '' @ fmt2 (fmul rnd (fsub rnd (c2 0) (c 0)) 1000) @ ''ms'') s1,
              \<lambda>n. c2 (Suc n)))
         \<and> with_timer rnd (Some '''') block (s, c) \<noteq>
           Some (Inr (),
             (print ('''' @ '' took '' @ fmt2 (fmul rnd (fsub rnd (c2 0) (c 0)) 1000) @ ''ms'') s1,
              \<lambda>n. c2 (Suc n)))"
proof -
  let ?t = "fmul rnd (fsub rnd (c2 0) (c 0)) 1000"
  have run: "with_timer rnd (Some '''') block (s, c) =
           Some (Inr (), (print (''Execution took '' @ fmt2 ?t @ ''ms'') s1, \<lambda>n. c2 (Suc n)))"
    using assms by (simp add: with_timer_normal)
  have "stdout (print (''Execution took '' @ fmt2 ?t @ ''ms'') s1) \<noteq>
        stdout (print ('''' @ '' took '' @ fmt2 ?t @ ''ms'') s1)"
    by (simp add: print_def)
  then have "print (''Execution took '' @ fmt2 ?t @ ''ms'') s1 \<noteq>
        print ('''' @ '' took '' @ fmt2 ?t @ ''ms'') s1"
    by metis
  with run show ?thesis by simp
qed

theorem timer_empty_description_witness:
  "noop_block None (fresh, \<lambda>n. seconds (Suc n)) = Some (Inr (), (fresh, \<lambda>n. seconds (Suc n))) \<and>
   map_option (\<lambda>(r, s1, c1). (r, stdout s1))
     (with_timer exact (Some '''') noop_block (fresh, seconds)) =
     Some (Inr (), ''Execution took 1000.00ms'' @ [newline])"
proof -
  have h: "noop_block None (fresh, \<lambda>n. seconds (Suc n)) =
      Some (Inr (), (fresh, \<lambda>n. seconds (Suc n)))"
    by (simp add: noop_block_def)
  have t: "fmul exact (fsub exact (seconds (Suc 0)) (seconds 0)) 1000 = 1000"
    by (simp add: fmul_def fsub_def exact_def seconds_def)
  show ?thesis
    using h timer_empty_description
      [where block = noop_block and s = fresh and ?s1.0 = fresh and rnd = exact and c = seconds
         and ?c2.0 = "\<lambda>n. seconds (Suc n)"]
    unfolding t fmt2_1000
    by (simp add: print_def fresh_def)
qed

subsection \<open>The name and the docstring of the decorated callable\<close>

text \<open>
  C6, as the code has it. For every callable, the decorated callable has the docstring
  of the callable, and the name of the callable when the callable has a name. For a
  callable without a name the decorated callable keeps the name \<^verbatim>\<open>wrapper\<close>.
\<close>

theorem time_execution_metadata:
  "doc (time_execution rnd func) = doc func
   \<and> name (time_execution rnd func) = (case name func of None \<Rightarrow> Some ''wrapper'' | Some n \<Rightarrow> Some n)"
  by (simp add: time_execution_def functools_wraps_def split: option.split)

text \<open>
  The claim as first stated, the same name for every callable, fails for
  \<^verbatim>\<open>functools.partial(my_function, 5)\<close>: the object has no name, and the decorated
  callable is named \<^verbatim>\<open>wrapper\<close>.
\<close>

theorem time_execution_metadata_counterexample:
  "name (partial_object :: (int, unit \<times> clock, string, int) callable) = None
   \<and> name (time_execution exact (partial_object :: (int, unit \<times> clock, string, int) callable)) =
       Some ''wrapper''
   \<and> name (time_execution exact (partial_object :: (int, unit \<times> clock, string, int) callable)) \<noteq>
       name (partial_object :: (int, unit \<times> clock, string, int) callable)"
  by (simp add: time_execution_def functools_wraps_def partial_object_def)

subsection \<open>The context manager gives no value and only writes to the standard output\<close>

text \<open>
  C7. For every use of \<^verbatim>\<open>timer\<close>, the value bound by the \<^verbatim>\<open>with\<close> statement is
  \<^verbatim>\<open>None\<close>, and the only effect of the timer on the program state is on the standard
  output: whenever the \<^verbatim>\<open>with\<close> statement ends, its outcome is the outcome of the
  block run with \<^verbatim>\<open>None\<close> bound, and the state is the state the block left with some
  text appended to the standard output, a line when the block ended normally and nothing
  when it raised.
\<close>

theorem timer_no_value:
  assumes "with_timer rnd descr block (s, c) = Some (r, (s2, c3))"
  shows "fst (fst (timer_enter descr c)) = (None :: 'y option)
       \<and> (\<exists>s1 c2 out. block (None :: 'y option) (s, snd (perf_counter c)) = Some (r, (s1, c2))
            \<and> s2 = s1\<lparr>stdout := stdout s1 @ out\<rparr>
            \<and> (case r of Inl e \<Rightarrow> out = [] | Inr u \<Rightarrow> \<exists>line. out = line @ [newline]))"
proof -
  have target: "fst (fst (timer_enter descr c)) = (None :: 'y option)"
    by (simp add: timer_enter_def perf_counter_def)
  have pc: "snd (perf_counter c) = (\<lambda>n. c (Suc n))"
    by (simp add: perf_counter_def)
  show ?thesis
  proof (cases "block None (s, \<lambda>n. c (Suc n))")
    case None
    then have "with_timer rnd descr block (s, c) = None"
      by (rule with_timer_diverges)
    with assms show ?thesis by simp
  next
    case (Some p)
    obtain r1 s1 c2 where p: "p = (r1, s1, c2)" by (cases p)
    show ?thesis
    proof (cases r1)
      case (Inl e)
      with Some p have b: "block None (s, \<lambda>n. c (Suc n)) = Some (Inl e, (s1, c2))" by simp
      have "with_timer rnd descr block (s, c) = Some (Inl e, (s1, c2))"
        using b by (simp add: with_timer_raises)
      with assms have "r = Inl e" "s2 = s1" by simp_all
      with b target pc show ?thesis by simp
    next
      case (Inr u)
      with Some p have b: "block None (s, \<lambda>n. c (Suc n)) = Some (Inr (), (s1, c2))" by simp
      obtain line where "with_timer rnd descr block (s, c) =
          Some (Inr (), (print line s1, \<lambda>n. c2 (Suc n)))"
        using with_timer_normal
          [where block = block and s = s and ?s1.0 = s1 and c = c and ?c2.0 = c2, of rnd descr] b
        by blast
      with assms have "r = Inr ()" "s2 = print line s1" by simp_all
      with b target pc show ?thesis by (auto simp add: print_def)
    qed
  qed
qed

theorem timer_no_value_witness:
  "with_timer exact (Some ''load'') noop_block (fresh, seconds) =
     Some (Inr (), (fresh\<lparr>stdout := ''load took 1000.00ms'' @ [newline]\<rparr>, \<lambda>n. seconds (Suc (Suc n))))
   \<and> fst (fst (timer_enter (Some ''load'') seconds)) = (None :: unit option)
   \<and> (\<exists>s1 c2 out. noop_block None (fresh, snd (perf_counter seconds)) = Some (Inr (), (s1, c2))
         \<and> fresh\<lparr>stdout := ''load took 1000.00ms'' @ [newline]\<rparr> = s1\<lparr>stdout := stdout s1 @ out\<rparr>
         \<and> (\<exists>line. out = line @ [newline]))"
proof -
  have h: "noop_block None (fresh, \<lambda>n. seconds (Suc n)) =
      Some (Inr (), (fresh, \<lambda>n. seconds (Suc n)))"
    by (simp add: noop_block_def)
  have t: "fmul exact (fsub exact (seconds (Suc 0)) (seconds 0)) 1000 = 1000"
    by (simp add: fmul_def fsub_def exact_def seconds_def)
  have run: "with_timer exact (Some ''load'') noop_block (fresh, seconds) =
     Some (Inr (), (fresh\<lparr>stdout := ''load took 1000.00ms'' @ [newline]\<rparr>, \<lambda>n. seconds (Suc (Suc n))))"
    using with_timer_normal
      [where block = noop_block and s = fresh and ?s1.0 = fresh and c = seconds
         and ?c2.0 = "\<lambda>n. seconds (Suc n)", of exact "Some ''load''"] h
    unfolding t fmt2_1000 by (simp add: print_def fresh_def)
  show ?thesis
    using run timer_no_value [OF run] by simp
qed

end
